theory Spec2Isabelle
  imports Complex_Main
begin

section \<open>Inventory policy dashboard: data model\<close>

text \<open>
  The program is one script, \<^verbatim>\<open>app.py\<close>, that runs top to bottom on every
  interaction: it loads two tables, reads the sidebar controls, filters the forecast table
  for the selected store and product, recalculates the inventory policy for that SKU, builds
  a comparison table over all service levels and recalculates the policy for every row of
  the policy table.

  Numbers: the script computes on 64-bit floats. They are modelled as real numbers, so the
  theorems below speak of the formulas the script evaluates, not of rounding. The one place
  where the script could meet an undefined number (the mean of no values, the sample
  standard deviation of fewer than two values) is modelled explicitly: the two statistics
  return \<open>None\<close> where pandas returns NaN.
\<close>

text \<open>One row of \<^verbatim>\<open>sku_forecasts.csv\<close>; the two interval columns are optional.\<close>

record ForecastRecord =
  store_key :: string
  prod_key :: string
  date :: int
  prediction :: real
  upper_95 :: "real option"
  lower_95 :: "real option"

text \<open>One row of \<^verbatim>\<open>inventory_policy.csv\<close>.\<close>

record PolicyRow =
  row_store_key :: string
  row_prod_key :: string
  mu_d :: real
  sigma_d :: real

text \<open>
  The sidebar controls. \<open>service_level\<close> is the value of a select slider over
  \<open>[0.90, 0.95, 0.97, 0.99]\<close>; \<open>lead_time_days\<close> is the value of an integer slider
  from 1 to 21 in steps of 1, hence a natural number; the two costs are number inputs with
  minimum \<open>0.0\<close>.
\<close>

record PolicyParameters =
  service_level :: real
  lead_time_days :: nat
  holding_cost :: real
  stockout_cost :: real

text \<open>The five numbers of lines 102 to 106, under the script's variable names.\<close>

record PolicyResult =
  safety_stock :: real
  reorder_point :: real
  expected_hold :: real
  expected_sout :: real
  total_cost :: real

datatype error = KeyError

section \<open>Recalculating the policy\<close>

text \<open>
  \<^verbatim>\<open>z_map = {0.90: 1.28, 0.95: 1.65, 0.97: 1.88, 0.99: 2.33}\<close>: a dictionary whose
  iteration order is its insertion order, hence an association list.
  \<^verbatim>\<open>Z = z_map[service_level]\<close> raises \<^verbatim>\<open>KeyError\<close> on a missing key.
\<close>

definition z_map :: "(real \<times> real) list" where
  "z_map = [(0.90, 1.28), (0.95, 1.65), (0.97, 1.88), (0.99, 2.33)]"

definition z_lookup :: "real \<Rightarrow> error + real" where
  "z_lookup sl = (case map_of z_map sl of None \<Rightarrow> Inl KeyError | Some z \<Rightarrow> Inr z)"

text \<open>
  Lines 102 to 106:
  \<^verbatim>\<open>
  safety_stock  = Z * sigma_d * np.sqrt(lead_time_days)
  reorder_point = mu_d * lead_time_days + safety_stock
  expected_hold = safety_stock * holding_cost
  expected_sout = sigma_d * 0.10 * stockout_cost
  total_cost    = expected_hold + expected_sout
  \<close>
\<close>

definition policy_formula :: "real \<Rightarrow> real \<Rightarrow> real \<Rightarrow> nat \<Rightarrow> real \<Rightarrow> real \<Rightarrow> PolicyResult" where
  "policy_formula Z mu sigma L hc sc =
     (let ss = Z * sigma * sqrt (real L);
          rop = mu * real L + ss;
          hold = ss * hc;
          sout = sigma * 0.10 * sc;
          total = hold + sout
      in \<lparr>safety_stock = ss, reorder_point = rop, expected_hold = hold,
          expected_sout = sout, total_cost = total\<rparr>)"

text \<open>
  The policy calculation for given demand statistics: the lookup of line 97, then the
  formulas.
\<close>

definition policy_calculator :: "PolicyParameters \<Rightarrow> real \<Rightarrow> real \<Rightarrow> error + PolicyResult" where
  "policy_calculator p mu sigma =
     (case z_lookup (service_level p) of
        Inl e \<Rightarrow> Inl e
      | Inr Z \<Rightarrow> Inr (policy_formula Z mu sigma (lead_time_days p) (holding_cost p) (stockout_cost p)))"

section \<open>Demand statistics of the selected SKU\<close>

text \<open>
  Lines 84 to 87: the rows of the forecast table with the selected store and product, sorted
  by date.
\<close>

definition sku_filter :: "ForecastRecord list \<Rightarrow> string \<Rightarrow> string \<Rightarrow> ForecastRecord list" where
  "sku_filter forecasts selected_store selected_product =
     sort_key date
       (filter (\<lambda>r. store_key r = selected_store \<and> prod_key r = selected_product) forecasts)"

text \<open>
  \<^verbatim>\<open>Series.mean()\<close> and \<^verbatim>\<open>Series.std()\<close> of pandas: the arithmetic mean, and
  the sample standard deviation with \<open>n - 1\<close> in the denominator. pandas returns NaN for
  the mean of an empty series and for the standard deviation of fewer than two values;
  \<open>None\<close> here.
\<close>

definition mean_pd :: "real list \<Rightarrow> real option" where
  "mean_pd xs = (if xs = [] then None else Some (sum_list xs / real (length xs)))"

definition std_pd :: "real list \<Rightarrow> real option" where
  "std_pd xs =
     (case mean_pd xs of
        None \<Rightarrow> None
      | Some m \<Rightarrow>
          if length xs < 2 then None
          else Some (sqrt (sum_list (map (\<lambda>x. (x - m)\<^sup>2) xs) / real (length xs - 1))))"

text \<open>
  Lines 99 and 100:
  \<^verbatim>\<open>
  mu_d    = sku_df["prediction"].mean()
  sigma_d = sku_df["prediction"].std() if len(sku_df) > 1 else 5.0
  \<close>
\<close>

definition sku_mu_d :: "ForecastRecord list \<Rightarrow> real option" where
  "sku_mu_d sku_df = mean_pd (map prediction sku_df)"

definition sku_sigma_d :: "ForecastRecord list \<Rightarrow> real option" where
  "sku_sigma_d sku_df = (if length sku_df > 1 then std_pd (map prediction sku_df) else Some 5.0)"

section \<open>The service level comparison table\<close>

text \<open>
  Python's \<^verbatim>\<open>int(x)\<close> truncates towards zero; \<^verbatim>\<open>round(x)\<close> rounds to the nearest
  integer, a tie to the even one; \<^verbatim>\<open>f"{n}"\<close> prints an integer in decimal.
\<close>

definition py_int :: "real \<Rightarrow> int" where
  "py_int x = (if 0 \<le> x then \<lfloor>x\<rfloor> else \<lceil>x\<rceil>)"

definition py_round :: "real \<Rightarrow> int" where
  "py_round x =
     (let f = \<lfloor>x\<rfloor>; d = x - of_int f
      in if d < 1 / 2 then f else if 1 / 2 < d then f + 1 else if even f then f else f + 1)"

definition digit_char :: "nat \<Rightarrow> char" where
  "digit_char d = ''0123456789'' ! d"

function str_nat :: "nat \<Rightarrow> string" where
  "str_nat n = (if n < 10 then [digit_char n] else str_nat (n div 10) @ [digit_char (n mod 10)])"
  by pat_completeness auto
termination
  by (relation "measure id") auto

definition str_int :: "int \<Rightarrow> string" where
  "str_int i = (if i < 0 then ''-'' @ str_nat (nat (- i)) else str_nat (nat i))"

record ComparisonRow =
  Service_Level :: string
  Safety_Stock :: int
  Reorder_Point :: int

text \<open>
  Lines 182 to 186:
  \<^verbatim>\<open>
  rows = []
  for sl, z in z_map.items():
      ss  = z * sigma_d * np.sqrt(lead_time_days)
      rop = mu_d * lead_time_days + ss
      rows.append({"Service Level": f"{int(sl*100)}%", "Safety Stock": round(ss),
                   "Reorder Point": round(rop)})
  \<close>
\<close>

definition comparison_row :: "real \<Rightarrow> real \<Rightarrow> nat \<Rightarrow> real \<times> real \<Rightarrow> ComparisonRow" where
  "comparison_row mu sigma L item =
     (case item of (sl, z) \<Rightarrow>
        let ss = z * sigma * sqrt (real L);
            rop = mu * real L + ss
        in \<lparr>Service_Level = str_int (py_int (sl * 100)) @ ''%'',
            Safety_Stock = py_round ss, Reorder_Point = py_round rop\<rparr>)"

definition comparison_rows :: "real \<Rightarrow> real \<Rightarrow> nat \<Rightarrow> ComparisonRow list" where
  "comparison_rows mu sigma L = map (comparison_row mu sigma L) z_map"

section \<open>The full policy table\<close>

text \<open>
  Lines 196 to 201 work on whole columns of the policy table:
  \<^verbatim>\<open>
  policy_live = policy.copy()
  policy_live["safety_stock"]  = Z * policy_live["sigma_d"] * np.sqrt(lead_time_days)
  policy_live["reorder_point"] = policy_live["mu_d"] * lead_time_days + policy_live["safety_stock"]
  policy_live["holding_cost"]  = policy_live["safety_stock"] * holding_cost
  policy_live["stockout_cost"] = policy_live["sigma_d"] * 0.10 * stockout_cost
  policy_live["total_cost"]    = policy_live["holding_cost"] + policy_live["stockout_cost"]
  \<close>
  A column is a list; a scalar applied to a column acts on every entry, and two columns of
  the same frame combine entry by entry.
\<close>

record PolicyLive =
  policy_rows :: "PolicyRow list"
  safety_stock_col :: "real list"
  reorder_point_col :: "real list"
  holding_cost_col :: "real list"
  stockout_cost_col :: "real list"
  total_cost_col :: "real list"

definition policy_live :: "real \<Rightarrow> PolicyParameters \<Rightarrow> PolicyRow list \<Rightarrow> PolicyLive" where
  "policy_live Z p policy =
     (let ss_col = map (\<lambda>s. Z * s * sqrt (real (lead_time_days p))) (map sigma_d policy);
          rop_col = map2 (\<lambda>m ss. m * real (lead_time_days p) + ss) (map mu_d policy) ss_col;
          hold_col = map (\<lambda>ss. ss * holding_cost p) ss_col;
          sout_col = map (\<lambda>s. s * 0.10 * stockout_cost p) (map sigma_d policy);
          total_col = map2 (\<lambda>h s. h + s) hold_col sout_col
      in \<lparr>policy_rows = policy, safety_stock_col = ss_col, reorder_point_col = rop_col,
          holding_cost_col = hold_col, stockout_cost_col = sout_col,
          total_cost_col = total_col\<rparr>)"

section \<open>The script\<close>

text \<open>
  What one run of the script computes. A failed load stops the script with an error message
  (lines 43 to 46); an empty selection stops it with a warning (lines 89 to 91); a service
  level missing from \<open>z_map\<close> raises (line 97). \<open>NaN_Metrics\<close> stands for a run that
  would go on with an undefined mean or standard deviation. Charts, number formatting and
  the export are presentation and are left out.
\<close>

record Dashboard =
  avg_daily_forecast :: real
  sku_sigma :: real
  sku_policy :: PolicyResult
  service_level_comparison :: "ComparisonRow list"
  full_policy :: PolicyLive

datatype outcome =
    Load_Error string
  | Empty_Selection_Warning string
  | Raised error
  | NaN_Metrics
  | Rendered Dashboard

definition app ::
  "string + (ForecastRecord list \<times> PolicyRow list) \<Rightarrow> string \<Rightarrow> string \<Rightarrow> PolicyParameters \<Rightarrow> outcome" where
  "app loaded selected_store selected_product p =
     (case loaded of
        Inl load_error \<Rightarrow> Load_Error load_error
      | Inr (forecasts, policy) \<Rightarrow>
          let sku_df = sku_filter forecasts selected_store selected_product
          in if sku_df = []
             then Empty_Selection_Warning
                    ''No forecast data found for this store/product combination.''
             else (case z_lookup (service_level p) of
                     Inl e \<Rightarrow> Raised e
                   | Inr Z \<Rightarrow>
                      (case sku_mu_d sku_df of
                         None \<Rightarrow> NaN_Metrics
                       | Some mu \<Rightarrow>
                          (case sku_sigma_d sku_df of
                             None \<Rightarrow> NaN_Metrics
                           | Some sigma \<Rightarrow>
                               Rendered
                                 \<lparr>avg_daily_forecast = mu, sku_sigma = sigma,
                                  sku_policy = policy_formula Z mu sigma (lead_time_days p)
                                                 (holding_cost p) (stockout_cost p),
                                  service_level_comparison =
                                    comparison_rows mu sigma (lead_time_days p),
                                  full_policy = policy_live Z p policy\<rparr>))))"

section \<open>Properties of the policy calculation\<close>

lemma z_lookup_090: "z_lookup 0.90 = Inr 1.28"
  by (simp add: z_lookup_def z_map_def)

lemma z_lookup_095: "z_lookup 0.95 = Inr 1.65"
  by (simp add: z_lookup_def z_map_def)

lemma z_lookup_097: "z_lookup 0.97 = Inr 1.88"
  by (simp add: z_lookup_def z_map_def)

lemma z_lookup_099: "z_lookup 0.99 = Inr 2.33"
  by (simp add: z_lookup_def z_map_def)

text \<open>
  C1. For a service level of the table \<open>0.90 \<mapsto> 1.28, 0.95 \<mapsto> 1.65, 0.97 \<mapsto> 1.88,
  0.99 \<mapsto> 2.33\<close> with z-score \<open>z\<close>, the calculation returns exactly
  safety stock \<open>z * sigma_d * sqrt lead_time_days\<close>, reorder point
  \<open>mu_d * lead_time_days + safety_stock\<close>, holding cost
  \<open>safety_stock * holding_cost\<close>, stockout cost \<open>sigma_d * 0.10 * stockout_cost\<close> and
  total cost \<open>holding cost + stockout cost\<close>.
\<close>

theorem policy_calculator_formulas:
  assumes "(service_level p, z) \<in> {(0.90, 1.28), (0.95, 1.65), (0.97, 1.88), (0.99, 2.33)}"
  shows "\<exists>r. policy_calculator p mu sigma = Inr r
           \<and> safety_stock r = z * sigma * sqrt (real (lead_time_days p))
           \<and> reorder_point r = mu * real (lead_time_days p) + safety_stock r
           \<and> expected_hold r = safety_stock r * holding_cost p
           \<and> expected_sout r = sigma * 0.10 * stockout_cost p
           \<and> total_cost r = expected_hold r + expected_sout r"
proof -
  from assms consider
      "service_level p = 0.90" "z = 1.28"
    | "service_level p = 0.95" "z = 1.65"
    | "service_level p = 0.97" "z = 1.88"
    | "service_level p = 0.99" "z = 2.33"
    by blast
  then have "z_lookup (service_level p) = Inr z"
  proof cases
    case 1
    then show ?thesis by (simp only: z_lookup_090)
  next
    case 2
    then show ?thesis by (simp only: z_lookup_095)
  next
    case 3
    then show ?thesis by (simp only: z_lookup_097)
  next
    case 4
    then show ?thesis by (simp only: z_lookup_099)
  qed
  then show ?thesis
    by (simp add: policy_calculator_def policy_formula_def Let_def)
qed

theorem policy_calculator_formulas_witness:
  "policy_calculator \<lparr>service_level = 0.95, lead_time_days = 4, holding_cost = 0.5,
       stockout_cost = 5\<rparr> 100 10
     = Inr \<lparr>safety_stock = 33, reorder_point = 433, expected_hold = 16.5,
            expected_sout = 5, total_cost = 21.5\<rparr>"
  using policy_calculator_formulas [of "\<lparr>service_level = 0.95, lead_time_days = 4,
       holding_cost = 0.5, stockout_cost = 5\<rparr>" "1.65" 100 10]
  by auto

lemma z_lookup_in:
  assumes "s \<in> {0.90, 0.95, 0.97, 0.99}"
  shows "\<exists>z. z_lookup s = Inr z \<and> (s, z) \<in> {(0.90, 1.28), (0.95, 1.65), (0.97, 1.88), (0.99, 2.33)}"
proof -
  from assms consider "s = 0.90" | "s = 0.95" | "s = 0.97" | "s = 0.99"
    by blast
  then show ?thesis
  proof cases
    case 1
    show ?thesis unfolding 1 using z_lookup_090 by blast
  next
    case 2
    show ?thesis unfolding 2 using z_lookup_095 by blast
  next
    case 3
    show ?thesis unfolding 3 using z_lookup_097 by blast
  next
    case 4
    show ?thesis unfolding 4 using z_lookup_099 by blast
  qed
qed

lemma z_table_mono:
  assumes "(s1, z1) \<in> {(0.90, 1.28), (0.95, 1.65), (0.97, 1.88), (0.99, 2.33::real)}"
    and "(s2, z2) \<in> {(0.90, 1.28), (0.95, 1.65), (0.97, 1.88), (0.99, 2.33::real)}"
    and "(s1::real) \<le> s2"
  shows "z1 \<le> z2"
  using assms by auto

lemma z_table_nonneg:
  assumes "(s, z) \<in> {(0.90, 1.28), (0.95, 1.65), (0.97, 1.88), (0.99, 2.33::real)}"
  shows "(0::real) \<le> z"
  using assms by auto

lemma z_lookup_out:
  assumes "s \<notin> {0.90, 0.95, 0.97, 0.99}"
  shows "z_lookup s = Inl KeyError"
  using assms by (simp add: z_lookup_def z_map_def)

text \<open>
  C3. With \<open>sigma_d \<ge> 0\<close> and the lead time fixed, for two service levels
  \<open>s1 \<le> s2\<close> of \<open>{0.90, 0.95, 0.97, 0.99}\<close> the calculation succeeds at both and
  the safety stock at \<open>s1\<close> is at most the safety stock at \<open>s2\<close>.
\<close>

theorem safety_stock_mono_service_level:
  assumes "0 \<le> sigma"
    and "s1 \<in> {0.90, 0.95, 0.97, 0.99}" and "s2 \<in> {0.90, 0.95, 0.97, 0.99}"
    and "s1 \<le> s2"
  shows "\<exists>r1 r2. policy_calculator (p\<lparr>service_level := s1\<rparr>) mu sigma = Inr r1
            \<and> policy_calculator (p\<lparr>service_level := s2\<rparr>) mu sigma = Inr r2
            \<and> safety_stock r1 \<le> safety_stock r2"
proof -
  from z_lookup_in [OF assms(2)] obtain z1 where
    z1: "z_lookup s1 = Inr z1" "(s1, z1) \<in> {(0.90, 1.28), (0.95, 1.65), (0.97, 1.88), (0.99, 2.33)}"
    by blast
  from z_lookup_in [OF assms(3)] obtain z2 where
    z2: "z_lookup s2 = Inr z2" "(s2, z2) \<in> {(0.90, 1.28), (0.95, 1.65), (0.97, 1.88), (0.99, 2.33)}"
    by blast
  have z: "z_lookup s1 = Inr z1" "z_lookup s2 = Inr z2" "z1 \<le> z2"
    using z1 z2 z_table_mono [OF z1(2) z2(2) assms(4)] by simp_all
  have "0 \<le> sigma * sqrt (real (lead_time_days p))"
    using assms(1) by simp
  then have "z1 * (sigma * sqrt (real (lead_time_days p))) \<le> z2 * (sigma * sqrt (real (lead_time_days p)))"
    using z(3) by (rule mult_right_mono[rotated])
  then show ?thesis
    using z by (simp add: policy_calculator_def policy_formula_def Let_def mult.assoc)
qed

theorem safety_stock_mono_service_level_witness:
  "policy_calculator \<lparr>service_level = 0.90, lead_time_days = 4, holding_cost = 0.5, stockout_cost = 5\<rparr> 100 10
      = Inr \<lparr>safety_stock = 25.6, reorder_point = 425.6, expected_hold = 12.8,
            expected_sout = 5, total_cost = 17.8\<rparr>
   \<and> policy_calculator \<lparr>service_level = 0.99, lead_time_days = 4, holding_cost = 0.5, stockout_cost = 5\<rparr> 100 10
      = Inr \<lparr>safety_stock = 46.6, reorder_point = 446.6, expected_hold = 23.3,
            expected_sout = 5, total_cost = 28.3\<rparr>
   \<and> (25.6::real) \<le> 46.6"
  using safety_stock_mono_service_level [of 10 "0.90" "0.99"
      "\<lparr>service_level = 0.95, lead_time_days = 4, holding_cost = 0.5, stockout_cost = 5\<rparr>" 100]
  by (simp add: policy_calculator_def policy_formula_def Let_def z_lookup_def z_map_def)

text \<open>
  C4. The claim lets \<open>mu_d\<close> and \<open>sigma_d\<close> be any numbers. With mean demand
  \<open>- 1\<close>, deviation \<open>0\<close> and service level \<open>0.90\<close> the reorder point is \<open>- 1\<close> at
  lead time 1 and \<open>- 2\<close> at lead time 2: it decreases.
\<close>

theorem reorder_point_mono_counterexample:
  "policy_calculator \<lparr>service_level = 0.90, lead_time_days = 1, holding_cost = 0.5, stockout_cost = 5\<rparr> (- 1) 0
      = Inr \<lparr>safety_stock = 0, reorder_point = - 1, expected_hold = 0, expected_sout = 0, total_cost = 0\<rparr>
   \<and> policy_calculator \<lparr>service_level = 0.90, lead_time_days = 2, holding_cost = 0.5, stockout_cost = 5\<rparr> (- 1) 0
      = Inr \<lparr>safety_stock = 0, reorder_point = - 2, expected_hold = 0, expected_sout = 0, total_cost = 0\<rparr>
   \<and> (1::nat) \<le> 2 \<and> (2::nat) \<le> 21 \<and> \<not> ((- 1::real) \<le> - 2)"
  by (simp add: policy_calculator_def policy_formula_def Let_def z_lookup_def z_map_def)

text \<open>
  C4, amended. With \<open>mu_d \<ge> 0\<close> and \<open>sigma_d \<ge> 0\<close>, a service level of the table and
  lead times \<open>L1 \<le> L2\<close> (in particular any two of the slider's range 1 to 21), the
  reorder point at \<open>L1\<close> is at most the reorder point at \<open>L2\<close>, all else fixed.
\<close>

theorem reorder_point_mono_lead_time:
  assumes "0 \<le> mu" and "0 \<le> sigma"
    and "service_level p \<in> {0.90, 0.95, 0.97, 0.99}"
    and "L1 \<le> L2"
  shows "\<exists>r1 r2. policy_calculator (p\<lparr>lead_time_days := L1\<rparr>) mu sigma = Inr r1
            \<and> policy_calculator (p\<lparr>lead_time_days := L2\<rparr>) mu sigma = Inr r2
            \<and> reorder_point r1 \<le> reorder_point r2"
proof -
  from z_lookup_in [OF assms(3)] obtain z where
    z: "z_lookup (service_level p) = Inr z" "0 \<le> z" using z_table_nonneg by blast
  have l: "real L1 \<le> real L2" using assms(4) by simp
  then have s: "sqrt (real L1) \<le> sqrt (real L2)" by simp
  have a: "mu * real L1 \<le> mu * real L2"
    using l assms(1) by (rule mult_left_mono)
  have "0 \<le> z * sigma" using z(2) assms(2) by simp
  with s have b: "z * sigma * sqrt (real L1) \<le> z * sigma * sqrt (real L2)"
    by (rule mult_left_mono)
  from a b show ?thesis
    using z by (simp add: policy_calculator_def policy_formula_def Let_def)
qed

theorem reorder_point_mono_lead_time_witness:
  "policy_calculator \<lparr>service_level = 0.95, lead_time_days = 1, holding_cost = 0.5, stockout_cost = 5\<rparr> 100 10
      = Inr \<lparr>safety_stock = 16.5, reorder_point = 116.5, expected_hold = 8.25,
            expected_sout = 5, total_cost = 13.25\<rparr>
   \<and> policy_calculator \<lparr>service_level = 0.95, lead_time_days = 4, holding_cost = 0.5, stockout_cost = 5\<rparr> 100 10
      = Inr \<lparr>safety_stock = 33, reorder_point = 433, expected_hold = 16.5,
            expected_sout = 5, total_cost = 21.5\<rparr>
   \<and> (116.5::real) \<le> 433"
  using reorder_point_mono_lead_time [of 100 10
      "\<lparr>service_level = 0.95, lead_time_days = 7, holding_cost = 0.5, stockout_cost = 5\<rparr>" 1 4]
  by (simp add: policy_calculator_def policy_formula_def Let_def z_lookup_def z_map_def)

text \<open>
  C5. The calculation fails exactly when the service level is not one of
  \<open>0.90, 0.95, 0.97, 0.99\<close>, and then with the lookup's \<open>KeyError\<close>; it succeeds
  exactly when the service level is one of the four. No other input decides between the
  two, and no z-score is substituted for a missing key.
\<close>

theorem policy_calculator_fails_iff:
  "(policy_calculator p mu sigma = Inl KeyError) = (service_level p \<notin> {0.90, 0.95, 0.97, 0.99})
   \<and> ((\<exists>r. policy_calculator p mu sigma = Inr r) = (service_level p \<in> {0.90, 0.95, 0.97, 0.99}))
   \<and> ((\<exists>e. policy_calculator p mu sigma = Inl e) = (service_level p \<notin> {0.90, 0.95, 0.97, 0.99}))"
proof (cases "service_level p \<in> {0.90, 0.95, 0.97, 0.99}")
  case True
  from z_lookup_in [OF True] obtain z where "z_lookup (service_level p) = Inr z" by blast
  with True show ?thesis by (simp add: policy_calculator_def)
next
  case False
  from z_lookup_out [OF False] have "z_lookup (service_level p) = Inl KeyError" .
  with False show ?thesis by (simp add: policy_calculator_def)
qed

theorem policy_calculator_fails_iff_witness:
  "policy_calculator \<lparr>service_level = 0.5, lead_time_days = 4, holding_cost = 0.5, stockout_cost = 5\<rparr> 100 10
      = Inl KeyError
   \<and> policy_calculator \<lparr>service_level = 0.95, lead_time_days = 4, holding_cost = 0.5, stockout_cost = 5\<rparr> 100 10
      \<noteq> Inl KeyError"
  using policy_calculator_fails_iff [of "\<lparr>service_level = 0.5, lead_time_days = 4, holding_cost = 0.5, stockout_cost = 5\<rparr>" 100 10]
    policy_calculator_fails_iff [of "\<lparr>service_level = 0.95, lead_time_days = 4, holding_cost = 0.5, stockout_cost = 5\<rparr>" 100 10]
  by simp

text \<open>
  C7. The claim asks every field of every result to be non-negative. With mean demand
  \<open>- 100\<close> and deviation \<open>0\<close> at lead time 1 the reorder point is \<open>- 100\<close>.
\<close>

theorem policy_result_nonneg_counterexample:
  "policy_calculator \<lparr>service_level = 0.95, lead_time_days = 1, holding_cost = 0.5, stockout_cost = 5\<rparr> (- 100) 0
      = Inr \<lparr>safety_stock = 0, reorder_point = - 100, expected_hold = 0, expected_sout = 0, total_cost = 0\<rparr>
   \<and> \<not> ((0::real) \<le> - 100)"
  by (simp add: policy_calculator_def policy_formula_def Let_def z_lookup_def z_map_def)

text \<open>
  C7, amended. When \<open>mu_d \<ge> 0\<close>, \<open>sigma_d \<ge> 0\<close> and both cost parameters are
  non-negative, every result of the calculation has all five fields non-negative.
\<close>

theorem policy_result_nonneg:
  assumes "0 \<le> mu" and "0 \<le> sigma"
    and "0 \<le> holding_cost p" and "0 \<le> stockout_cost p"
    and "policy_calculator p mu sigma = Inr r"
  shows "0 \<le> safety_stock r \<and> 0 \<le> reorder_point r \<and> 0 \<le> expected_hold r
         \<and> 0 \<le> expected_sout r \<and> 0 \<le> total_cost r"
proof -
  from assms(5) obtain z where z: "z_lookup (service_level p) = Inr z"
    and r: "r = policy_formula z mu sigma (lead_time_days p) (holding_cost p) (stockout_cost p)"
    by (auto simp: policy_calculator_def split: sum.splits)
  have "service_level p \<in> {0.90, 0.95, 0.97, 0.99}"
    using z z_lookup_out [of "service_level p"] by auto
  from z_lookup_in [OF this] z have zpos: "0 \<le> z" using z_table_nonneg by auto
  have ss: "0 \<le> z * sigma * sqrt (real (lead_time_days p))"
    using zpos assms(2) by simp
  have rop: "0 \<le> mu * real (lead_time_days p)" using assms(1) by simp
  have so: "0 \<le> sigma * 0.10 * stockout_cost p" using assms(2,4) by simp
  have ho: "0 \<le> z * sigma * sqrt (real (lead_time_days p)) * holding_cost p"
    using ss assms(3) by (rule mult_nonneg_nonneg)
  show ?thesis
    using ss rop so ho by (simp add: r policy_formula_def Let_def)
qed

theorem policy_result_nonneg_witness:
  "policy_calculator \<lparr>service_level = 0.95, lead_time_days = 4, holding_cost = 0.5, stockout_cost = 5\<rparr> 100 10
      = Inr \<lparr>safety_stock = 33, reorder_point = 433, expected_hold = 16.5,
            expected_sout = 5, total_cost = 21.5\<rparr>
   \<and> (0::real) \<le> 33 \<and> (0::real) \<le> 433 \<and> (0::real) \<le> 16.5 \<and> (0::real) \<le> 5 \<and> (0::real) \<le> 21.5"
proof -
  have e: "policy_calculator \<lparr>service_level = 0.95, lead_time_days = 4, holding_cost = 0.5, stockout_cost = 5\<rparr> 100 10
      = Inr \<lparr>safety_stock = 33, reorder_point = 433, expected_hold = 16.5,
            expected_sout = 5, total_cost = 21.5\<rparr>"
    by (simp add: policy_calculator_def policy_formula_def Let_def z_lookup_def z_map_def)
  from policy_result_nonneg [OF _ _ _ _ e] e show ?thesis by simp
qed

end
